theory Spec2Isabelle
  imports Main
begin

section \<open>Data model of the floating-window controller\<close>

text \<open>
  The controller exists twice in the repository: as the hook \<open>useDraggableWindow\<close>
  (hooks/use-draggable-window) and inline in the component \<open>DraggableWindow\<close>
  (components/DraggableWindow.tsx). Both keep nine React state variables; every handler reads
  the values of the current render and calls setters, so a handler is a function from the
  state of the render to the next state, paired with the list of callbacks it invoked.

  Coordinates are CSS pixels, modelled as integers.
\<close>

text \<open>\<open>{ x: number; y: number }\<close>\<close>

record point =
  x :: int
  y :: int

text \<open>\<open>{ width: number; height: number }\<close>\<close>

record dims =
  width :: int
  height :: int

text \<open>
  The state variable \<open>resizeStart\<close>, \<open>{ x, y, width, height }\<close>: the pointer position and
  the window size at the press on the resize handle. Its fields carry the prefix \<open>r\<close>, as
  record fields are global names.
\<close>

record resize_start =
  rx :: int
  ry :: int
  rwidth :: int
  rheight :: int

text \<open>What the handlers read of a mouse event.\<close>

record mouse_event =
  clientX :: int
  clientY :: int

text \<open>
  What \<open>handleHeaderMouseDown\<close> reads of \<open>windowRef.current?.getBoundingClientRect()\<close>: the
  fields \<open>left\<close> and \<open>top\<close>. The rectangle is absent (\<open>None\<close>) when the ref is not attached.
\<close>

record dom_rect =
  rect_left :: int
  rect_top :: int

text \<open>
  What the handlers read of the global \<open>window\<close>. Where \<open>typeof window === "undefined"\<close> the
  handlers receive \<open>None\<close>.
\<close>

record browser_window =
  innerWidth :: int
  innerHeight :: int

text \<open>
  The options of the hook (the props of the component). The two callbacks are optional; the
  model records whether each one was supplied.
\<close>

record options =
  initialPosition :: point
  initialSize :: dims
  minWidth :: int
  minHeight :: int
  onDragStart :: bool
  onDragEnd :: bool

datatype notification = OnDragStart | OnDragEnd

text \<open>The nine state variables. \<open>size'\<close> is the state variable \<open>size\<close>.\<close>

record window_state =
  position :: point
  size' :: dims
  isDragging :: bool
  isResizing :: bool
  isMaximized :: bool
  dragStart :: point
  resizeStart :: resize_start
  prevPosition :: point
  prevSize :: dims

text \<open>The default values of the destructured options.\<close>

definition default_options :: options where
  "default_options =
     \<lparr>initialPosition = \<lparr>x = 100, y = 100\<rparr>,
      initialSize = \<lparr>width = 400, height = 600\<rparr>,
      minWidth = 300, minHeight = 400,
      onDragStart = False, onDragEnd = False\<rparr>"

text \<open>The \<open>useState\<close> initialisers.\<close>

definition initial_state :: "options \<Rightarrow> window_state" where
  "initial_state opts =
     \<lparr>position = initialPosition opts,
      size' = initialSize opts,
      isDragging = False,
      isResizing = False,
      isMaximized = False,
      dragStart = \<lparr>x = 0, y = 0\<rparr>,
      resizeStart = \<lparr>rx = 0, ry = 0, rwidth = 0, rheight = 0\<rparr>,
      prevPosition = initialPosition opts,
      prevSize = initialSize opts\<rparr>"

text \<open>An optional call \<open>cb?.()\<close>: the callback runs when it was supplied.\<close>

definition call_optional :: "bool \<Rightarrow> notification \<Rightarrow> notification list" where
  "call_optional supplied n = (if supplied then [n] else [])"


section \<open>The hook \<open>useDraggableWindow\<close>\<close>

text \<open>
  \<open>handleMouseMove\<close> and \<open>handleMouseUp\<close> live in an effect whose dependency array lists every
  value they read, and the three \<open>useCallback\<close> handlers list every state variable they read,
  so each handler sees the state of the current render.

  The effect attaches the two document listeners only while \<open>isDragging || isResizing\<close>; with
  both flags false the bodies of the two handlers change nothing either, so the model calls them
  in every state. \<open>e.stopPropagation()\<close> in \<open>handleResizeMouseDown\<close> routes the press away from
  the header and touches no state variable.
\<close>

definition handleMouseMove ::
  "options \<Rightarrow> mouse_event \<Rightarrow> browser_window option \<Rightarrow> window_state
    \<Rightarrow> window_state \<times> notification list" where
  "handleMouseMove opts e win s =
     (case win of
        None \<Rightarrow> (s, [])
      | Some w \<Rightarrow>
          if isDragging s then
            let newX = clientX e - x (dragStart s);
                newY = clientY e - y (dragStart s);
                maxX = innerWidth w - width (size' s);
                maxY = innerHeight w - (if isMaximized s then 0 else height (size' s))
            in (s\<lparr>position := \<lparr>x = max 0 (min newX maxX), y = max 0 (min newY maxY)\<rparr>\<rparr>, [])
          else if isResizing s then
            let deltaX = clientX e - rx (resizeStart s);
                deltaY = clientY e - ry (resizeStart s);
                newWidth = max (minWidth opts) (rwidth (resizeStart s) + deltaX);
                newHeight = max (minHeight opts) (rheight (resizeStart s) + deltaY);
                maxWidth = innerWidth w - x (position s);
                maxHeight = innerHeight w - y (position s)
            in (s\<lparr>size' := \<lparr>width = min newWidth maxWidth, height = min newHeight maxHeight\<rparr>\<rparr>, [])
          else (s, []))"

definition handleMouseUp :: "options \<Rightarrow> window_state \<Rightarrow> window_state \<times> notification list" where
  "handleMouseUp opts s =
     (let (s1, fired) =
            (if isDragging s
             then (s\<lparr>isDragging := False\<rparr>, call_optional (onDragEnd opts) OnDragEnd)
             else (s, []))
      in if isResizing s then (s1\<lparr>isResizing := False\<rparr>, fired) else (s1, fired))"

definition handleHeaderMouseDown ::
  "options \<Rightarrow> mouse_event \<Rightarrow> dom_rect option \<Rightarrow> window_state
    \<Rightarrow> window_state \<times> notification list" where
  "handleHeaderMouseDown opts e rect s =
     (if isMaximized s then (s, [])
      else case rect of
             None \<Rightarrow> (s, [])
           | Some r \<Rightarrow>
               (s\<lparr>dragStart := \<lparr>x = clientX e - rect_left r, y = clientY e - rect_top r\<rparr>,
                  isDragging := True\<rparr>,
                call_optional (onDragStart opts) OnDragStart))"

definition handleResizeMouseDown ::
  "mouse_event \<Rightarrow> window_state \<Rightarrow> window_state \<times> notification list" where
  "handleResizeMouseDown e s =
     (if isMaximized s then (s, [])
      else (s\<lparr>resizeStart := \<lparr>rx = clientX e, ry = clientY e,
                               rwidth = width (size' s), rheight = height (size' s)\<rparr>,
               isResizing := True\<rparr>, []))"

definition handleMaximize ::
  "browser_window option \<Rightarrow> window_state \<Rightarrow> window_state \<times> notification list" where
  "handleMaximize win s =
     (case win of
        None \<Rightarrow> (s, [])
      | Some w \<Rightarrow>
          if isMaximized s then
            (s\<lparr>position := prevPosition s, size' := prevSize s, isMaximized := False\<rparr>, [])
          else
            (s\<lparr>prevPosition := position s, prevSize := size' s,
               position := \<lparr>x = 0, y = 0\<rparr>,
               size' := \<lparr>width = innerWidth w, height = innerHeight w\<rparr>,
               isMaximized := True\<rparr>, []))"


section \<open>The component \<open>DraggableWindow\<close>\<close>

text \<open>The same five handlers as the component declares them inline.\<close>

definition DraggableWindow_handleMouseMove ::
  "options \<Rightarrow> mouse_event \<Rightarrow> browser_window option \<Rightarrow> window_state
    \<Rightarrow> window_state \<times> notification list" where
  "DraggableWindow_handleMouseMove opts e win s =
     (case win of
        None \<Rightarrow> (s, [])
      | Some w \<Rightarrow>
          if isDragging s then
            let newX = clientX e - x (dragStart s);
                newY = clientY e - y (dragStart s);
                maxX = innerWidth w - width (size' s);
                maxY = innerHeight w - (if isMaximized s then 0 else height (size' s))
            in (s\<lparr>position := \<lparr>x = max 0 (min newX maxX), y = max 0 (min newY maxY)\<rparr>\<rparr>, [])
          else if isResizing s then
            let deltaX = clientX e - rx (resizeStart s);
                deltaY = clientY e - ry (resizeStart s);
                newWidth = max (minWidth opts) (rwidth (resizeStart s) + deltaX);
                newHeight = max (minHeight opts) (rheight (resizeStart s) + deltaY);
                maxWidth = innerWidth w - x (position s);
                maxHeight = innerHeight w - y (position s)
            in (s\<lparr>size' := \<lparr>width = min newWidth maxWidth, height = min newHeight maxHeight\<rparr>\<rparr>, [])
          else (s, []))"

definition DraggableWindow_handleMouseUp ::
  "options \<Rightarrow> window_state \<Rightarrow> window_state \<times> notification list" where
  "DraggableWindow_handleMouseUp opts s =
     (let (s1, fired) =
            (if isDragging s
             then (s\<lparr>isDragging := False\<rparr>, call_optional (onDragEnd opts) OnDragEnd)
             else (s, []))
      in if isResizing s then (s1\<lparr>isResizing := False\<rparr>, fired) else (s1, fired))"

definition DraggableWindow_handleHeaderMouseDown ::
  "options \<Rightarrow> mouse_event \<Rightarrow> dom_rect option \<Rightarrow> window_state
    \<Rightarrow> window_state \<times> notification list" where
  "DraggableWindow_handleHeaderMouseDown opts e rect s =
     (if isMaximized s then (s, [])
      else case rect of
             None \<Rightarrow> (s, [])
           | Some r \<Rightarrow>
               (s\<lparr>dragStart := \<lparr>x = clientX e - rect_left r, y = clientY e - rect_top r\<rparr>,
                  isDragging := True\<rparr>,
                call_optional (onDragStart opts) OnDragStart))"

definition DraggableWindow_handleResizeMouseDown ::
  "mouse_event \<Rightarrow> window_state \<Rightarrow> window_state \<times> notification list" where
  "DraggableWindow_handleResizeMouseDown e s =
     (if isMaximized s then (s, [])
      else (s\<lparr>resizeStart := \<lparr>rx = clientX e, ry = clientY e,
                               rwidth = width (size' s), rheight = height (size' s)\<rparr>,
               isResizing := True\<rparr>, []))"

definition DraggableWindow_handleMaximize ::
  "browser_window option \<Rightarrow> window_state \<Rightarrow> window_state \<times> notification list" where
  "DraggableWindow_handleMaximize win s =
     (case win of
        None \<Rightarrow> (s, [])
      | Some w \<Rightarrow>
          if isMaximized s then
            (s\<lparr>position := prevPosition s, size' := prevSize s, isMaximized := False\<rparr>, [])
          else
            (s\<lparr>prevPosition := position s, prevSize := size' s,
               position := \<lparr>x = 0, y = 0\<rparr>,
               size' := \<lparr>width = innerWidth w, height = innerHeight w\<rparr>,
               isMaximized := True\<rparr>, []))"


section \<open>The operations of the controller\<close>

text \<open>
  The five entry points of the controller, each dispatching to the handler of one of the two
  implementations: header press, resize-handle press, pointer move, pointer release, and the
  maximize button.
\<close>

datatype impl = Hook | Component

fun beginDrag ::
  "impl \<Rightarrow> options \<Rightarrow> mouse_event \<Rightarrow> dom_rect option \<Rightarrow> window_state
    \<Rightarrow> window_state \<times> notification list" where
  "beginDrag Hook = handleHeaderMouseDown"
| "beginDrag Component = DraggableWindow_handleHeaderMouseDown"

fun beginResize ::
  "impl \<Rightarrow> mouse_event \<Rightarrow> window_state \<Rightarrow> window_state \<times> notification list" where
  "beginResize Hook = handleResizeMouseDown"
| "beginResize Component = DraggableWindow_handleResizeMouseDown"

fun onPointerMove ::
  "impl \<Rightarrow> options \<Rightarrow> mouse_event \<Rightarrow> browser_window option \<Rightarrow> window_state
    \<Rightarrow> window_state \<times> notification list" where
  "onPointerMove Hook = handleMouseMove"
| "onPointerMove Component = DraggableWindow_handleMouseMove"

fun endInteraction ::
  "impl \<Rightarrow> options \<Rightarrow> window_state \<Rightarrow> window_state \<times> notification list" where
  "endInteraction Hook = handleMouseUp"
| "endInteraction Component = DraggableWindow_handleMouseUp"

fun toggleMaximize ::
  "impl \<Rightarrow> browser_window option \<Rightarrow> window_state \<Rightarrow> window_state \<times> notification list" where
  "toggleMaximize Hook = handleMaximize"
| "toggleMaximize Component = DraggableWindow_handleMaximize"

text \<open>
  The interaction mode that the two flags encode. \<open>handleMouseMove\<close> tests \<open>isDragging\<close>
  first and \<open>isResizing\<close> only in the \<open>else\<close> branch, so a state with both flags set behaves
  as a dragging one.
\<close>

datatype interaction_mode = Idle | Dragging | Resizing

definition mode :: "window_state \<Rightarrow> interaction_mode" where
  "mode s = (if isDragging s then Dragging else if isResizing s then Resizing else Idle)"

text \<open>Events of the host surface, and runs of the controller over a list of them.\<close>

datatype event =
    BeginDrag mouse_event "dom_rect option"
  | BeginResize mouse_event
  | PointerMove mouse_event "browser_window option"
  | EndInteraction
  | ToggleMaximize "browser_window option"

fun step ::
  "impl \<Rightarrow> options \<Rightarrow> event \<Rightarrow> window_state \<Rightarrow> window_state \<times> notification list" where
  "step i opts (BeginDrag e rect) s = beginDrag i opts e rect s"
| "step i opts (BeginResize e) s = beginResize i e s"
| "step i opts (PointerMove e win) s = onPointerMove i opts e win s"
| "step i opts EndInteraction s = endInteraction i opts s"
| "step i opts (ToggleMaximize win) s = toggleMaximize i win s"

fun run ::
  "impl \<Rightarrow> options \<Rightarrow> event list \<Rightarrow> window_state \<Rightarrow> window_state \<times> notification list" where
  "run i opts [] s = (s, [])"
| "run i opts (ev # evs) s =
     (let (s1, fired1) = step i opts ev s;
          (s2, fired2) = run i opts evs s1
      in (s2, fired1 @ fired2))"

text \<open>Builders for the concrete inputs of the scenarios.\<close>

definition pointer_at :: "int \<Rightarrow> int \<Rightarrow> mouse_event" where
  "pointer_at px py = \<lparr>clientX = px, clientY = py\<rparr>"

definition rect_at :: "int \<Rightarrow> int \<Rightarrow> dom_rect" where
  "rect_at l t = \<lparr>rect_left = l, rect_top = t\<rparr>"

definition viewport_of :: "int \<Rightarrow> int \<Rightarrow> browser_window" where
  "viewport_of vw vh = \<lparr>innerWidth = vw, innerHeight = vh\<rparr>"

text \<open>
  An event maximizes the window when it is the maximize button, with \<open>window\<close> defined, on a
  window that is not maximized: the \<open>else\<close> branch of \<open>handleMaximize\<close>.
\<close>

fun maximizing :: "event \<Rightarrow> window_state \<Rightarrow> bool" where
  "maximizing (ToggleMaximize (Some w)) s = (\<not> isMaximized s)"
| "maximizing ev s = False"

text \<open>
  A run in which the window is only maximized while no drag or resize is in progress: every
  maximizing event of the run meets a state whose mode is \<open>Idle\<close>.
\<close>

fun maximize_only_idle :: "impl \<Rightarrow> options \<Rightarrow> event list \<Rightarrow> window_state \<Rightarrow> bool" where
  "maximize_only_idle i opts [] s = True"
| "maximize_only_idle i opts (ev # evs) s =
     ((if maximizing ev s then mode s = Idle else True)
      \<and> maximize_only_idle i opts evs (fst (step i opts ev s)))"

text \<open>A size that respects the configured minimums.\<close>

definition size_ok :: "options \<Rightarrow> dims \<Rightarrow> bool" where
  "size_ok opts d = (minWidth opts \<le> width d \<and> minHeight opts \<le> height d)"

text \<open>
  The viewport of an event leaves room for the minimum size. Only the two events that compute
  a size from the viewport need room: a pointer move that meets mode \<open>Resizing\<close>, from the
  window's top-left corner to the viewport's edges, and a maximizing event, in the viewport
  itself. Every other event needs none.
\<close>

fun viewport_roomy :: "options \<Rightarrow> event \<Rightarrow> window_state \<Rightarrow> bool" where
  "viewport_roomy opts (PointerMove e (Some w)) s =
     (if mode s = Resizing
      then minWidth opts \<le> innerWidth w - x (position s)
           \<and> minHeight opts \<le> innerHeight w - y (position s)
      else True)"
| "viewport_roomy opts (ToggleMaximize (Some w)) s =
     (if isMaximized s then True
      else minWidth opts \<le> innerWidth w \<and> minHeight opts \<le> innerHeight w)"
| "viewport_roomy opts ev s = True"

text \<open>
  The states of the scenarios: the initial state of the default options (position
  \<open>(100,100)\<close>, size \<open>(400,600)\<close>) after a header press at \<open>(150,150)\<close>, after a press on
  the resize handle at \<open>(500,700)\<close>, and after the maximize button in a viewport of
  \<open>(1280,800)\<close>.
\<close>

definition scenario_dragging :: window_state where
  "scenario_dragging =
     (initial_state default_options)\<lparr>dragStart := \<lparr>x = 50, y = 50\<rparr>, isDragging := True\<rparr>"

definition scenario_resizing :: window_state where
  "scenario_resizing =
     (initial_state default_options)
       \<lparr>resizeStart := \<lparr>rx = 500, ry = 700, rwidth = 400, rheight = 600\<rparr>,
        isResizing := True\<rparr>"

definition scenario_maximized :: window_state where
  "scenario_maximized =
     (initial_state default_options)
       \<lparr>position := \<lparr>x = 0, y = 0\<rparr>, size' := \<lparr>width = 1280, height = 800\<rparr>,
        isMaximized := True\<rparr>"

fun roomy_run :: "impl \<Rightarrow> options \<Rightarrow> event list \<Rightarrow> window_state \<Rightarrow> bool" where
  "roomy_run i opts [] s = True"
| "roomy_run i opts (ev # evs) s =
     (viewport_roomy opts ev s \<and> roomy_run i opts evs (fst (step i opts ev s)))"


section \<open>The two implementations agree\<close>

lemmas handler_defs =
  handleMouseMove_def handleMouseUp_def handleHeaderMouseDown_def
  handleResizeMouseDown_def handleMaximize_def

lemmas scenario_defs =
  pointer_at_def rect_at_def viewport_of_def default_options_def initial_state_def
  scenario_dragging_def scenario_resizing_def scenario_maximized_def

lemma DraggableWindow_handleMouseMove_eq:
  "DraggableWindow_handleMouseMove = handleMouseMove"
  by (intro ext) (simp add: DraggableWindow_handleMouseMove_def handleMouseMove_def)

lemma DraggableWindow_handleMouseUp_eq:
  "DraggableWindow_handleMouseUp = handleMouseUp"
  by (intro ext) (simp add: DraggableWindow_handleMouseUp_def handleMouseUp_def)

lemma DraggableWindow_handleHeaderMouseDown_eq:
  "DraggableWindow_handleHeaderMouseDown = handleHeaderMouseDown"
  by (intro ext) (simp add: DraggableWindow_handleHeaderMouseDown_def handleHeaderMouseDown_def)

lemma DraggableWindow_handleResizeMouseDown_eq:
  "DraggableWindow_handleResizeMouseDown = handleResizeMouseDown"
  by (intro ext) (simp add: DraggableWindow_handleResizeMouseDown_def handleResizeMouseDown_def)

lemma DraggableWindow_handleMaximize_eq:
  "DraggableWindow_handleMaximize = handleMaximize"
  by (intro ext) (simp add: DraggableWindow_handleMaximize_def handleMaximize_def)

lemma beginDrag_hook: "beginDrag i = handleHeaderMouseDown"
  by (cases i) (simp_all add: DraggableWindow_handleHeaderMouseDown_eq)

lemma beginResize_hook: "beginResize i = handleResizeMouseDown"
  by (cases i) (simp_all add: DraggableWindow_handleResizeMouseDown_eq)

lemma onPointerMove_hook: "onPointerMove i = handleMouseMove"
  by (cases i) (simp_all add: DraggableWindow_handleMouseMove_eq)

lemma endInteraction_hook: "endInteraction i = handleMouseUp"
  by (cases i) (simp_all add: DraggableWindow_handleMouseUp_eq)

lemma toggleMaximize_hook: "toggleMaximize i = handleMaximize"
  by (cases i) (simp_all add: DraggableWindow_handleMaximize_eq)

lemmas operation_hook =
  beginDrag_hook beginResize_hook onPointerMove_hook endInteraction_hook toggleMaximize_hook


section \<open>The scenario states are reached from the initial state\<close>

lemma scenario_dragging_reached:
  "fst (beginDrag i default_options (pointer_at 150 150) (Some (rect_at 100 100)) (initial_state default_options)) = scenario_dragging"
  by (simp add: operation_hook handler_defs scenario_defs)

lemma scenario_resizing_reached:
  "fst (beginResize i (pointer_at 500 700) (initial_state default_options)) = scenario_resizing"
  by (simp add: operation_hook handler_defs scenario_defs)

lemma scenario_maximized_reached:
  "fst (toggleMaximize i (Some (viewport_of 1280 800)) (initial_state default_options)) = scenario_maximized"
  by (simp add: operation_hook handler_defs scenario_defs)


section \<open>Pointer moves\<close>

text \<open>
  Claim C1. In a state whose mode is \<open>Dragging\<close>, a pointer move in a viewport sets
  \<open>position.x\<close> to \<open>max 0 (min (pointer.x - dragStart.x) (viewport.width - size.width))\<close>
  and \<open>position.y\<close> to
  \<open>max 0 (min (pointer.y - dragStart.y) (viewport.height - (if isMaximized then 0 else size.height)))\<close>,
  which is \<open>0\<close> whenever the upper bound is negative; nothing but the position changes and no
  callback runs. Scenario A: from position \<open>(100,100)\<close>, size \<open>(400,600)\<close>, a header press at
  \<open>(150,150)\<close> on a window at \<open>(100,100)\<close> and a move to \<open>(900,750)\<close> in a viewport of
  \<open>(1280,800)\<close> give position \<open>(850,200)\<close>.
\<close>

theorem drag_move_clamps:
  "mode s = Dragging \<Longrightarrow>
   (let s1 = fst (onPointerMove i opts e (Some w) s);
        boundX = innerWidth w - width (size' s);
        boundY = innerHeight w - (if isMaximized s then 0 else height (size' s))
    in x (position s1) = max 0 (min (clientX e - x (dragStart s)) boundX)
     \<and> y (position s1) = max 0 (min (clientY e - y (dragStart s)) boundY)
     \<and> (boundX < 0 \<longrightarrow> x (position s1) = 0)
     \<and> (boundY < 0 \<longrightarrow> y (position s1) = 0)
     \<and> s1 = s\<lparr>position := position s1\<rparr>
     \<and> snd (onPointerMove i opts e (Some w) s) = [])
   \<and> position (fst (run i default_options
         [BeginDrag (pointer_at 150 150) (Some (rect_at 100 100)),
          PointerMove (pointer_at 900 750) (Some (viewport_of 1280 800))]
         (initial_state default_options))) = \<lparr>x = 850, y = 200\<rparr>"
  by (auto simp: operation_hook handler_defs mode_def Let_def scenario_defs call_optional_def
      split: if_splits)

theorem drag_move_clamps_witness:
  "mode scenario_dragging = Dragging
   \<and> position (fst (onPointerMove Hook default_options (pointer_at 900 750)
        (Some (viewport_of 1280 800)) scenario_dragging)) = \<lparr>x = 850, y = 200\<rparr>
   \<and> innerWidth (viewport_of 300 500) - width (size' scenario_dragging) < 0
   \<and> innerHeight (viewport_of 300 500) - height (size' scenario_dragging) < 0
   \<and> position (fst (onPointerMove Hook default_options (pointer_at 900 750)
        (Some (viewport_of 300 500)) scenario_dragging)) = \<lparr>x = 0, y = 0\<rparr>"
proof -
  have h: "mode scenario_dragging = Dragging"
    by (simp add: mode_def scenario_defs)
  have a: "x (position (fst (onPointerMove Hook default_options (pointer_at 900 750)
        (Some (viewport_of 1280 800)) scenario_dragging))) = 850"
     "y (position (fst (onPointerMove Hook default_options (pointer_at 900 750)
        (Some (viewport_of 1280 800)) scenario_dragging))) = 200"
    using drag_move_clamps [OF h, of Hook default_options "pointer_at 900 750" "viewport_of 1280 800"]
    by (simp_all add: Let_def scenario_defs)
  have b: "x (position (fst (onPointerMove Hook default_options (pointer_at 900 750)
        (Some (viewport_of 300 500)) scenario_dragging))) = 0"
     "y (position (fst (onPointerMove Hook default_options (pointer_at 900 750)
        (Some (viewport_of 300 500)) scenario_dragging))) = 0"
    using drag_move_clamps [OF h, of Hook default_options "pointer_at 900 750" "viewport_of 300 500"]
    by (simp_all add: Let_def scenario_defs)
  show ?thesis using h a b
    by (simp add: scenario_defs point.equality)
qed

text \<open>
  Claim C2. In a state whose mode is \<open>Resizing\<close>, a pointer move in a viewport sets
  \<open>size.width\<close> to
  \<open>min (max minWidth (resizeStart.width + (pointer.x - resizeStart.x))) (viewport.width - position.x)\<close>
  and the height likewise: the floor is applied before the cap, so where the cap is below the
  minimum the result is the cap. Position and mode are unchanged, nothing but the size changes
  and no callback runs. Scenario B: a press on the resize handle at \<open>(500,700)\<close> and a move to
  \<open>(520,650)\<close> in a viewport of \<open>(1280,800)\<close> give size \<open>(420,550)\<close>.
\<close>

theorem resize_move_floor_then_cap:
  "mode s = Resizing \<Longrightarrow>
   (let s1 = fst (onPointerMove i opts e (Some w) s);
        capW = innerWidth w - x (position s);
        capH = innerHeight w - y (position s)
    in width (size' s1) =
         min (max (minWidth opts) (rwidth (resizeStart s) + (clientX e - rx (resizeStart s)))) capW
     \<and> height (size' s1) =
         min (max (minHeight opts) (rheight (resizeStart s) + (clientY e - ry (resizeStart s)))) capH
     \<and> (capW < minWidth opts \<longrightarrow> width (size' s1) = capW)
     \<and> (capH < minHeight opts \<longrightarrow> height (size' s1) = capH)
     \<and> position s1 = position s
     \<and> mode s1 = Resizing
     \<and> s1 = s\<lparr>size' := size' s1\<rparr>
     \<and> snd (onPointerMove i opts e (Some w) s) = [])
   \<and> size' (fst (run i default_options
         [BeginResize (pointer_at 500 700),
          PointerMove (pointer_at 520 650) (Some (viewport_of 1280 800))]
         (initial_state default_options))) = \<lparr>width = 420, height = 550\<rparr>"
  by (auto simp: operation_hook handler_defs mode_def Let_def scenario_defs
      split: if_splits)

theorem resize_move_floor_then_cap_witness:
  "mode scenario_resizing = Resizing
   \<and> size' (fst (onPointerMove Hook default_options (pointer_at 520 650)
        (Some (viewport_of 1280 800)) scenario_resizing)) = \<lparr>width = 420, height = 550\<rparr>
   \<and> innerWidth (viewport_of 350 450) - x (position scenario_resizing) < minWidth default_options
   \<and> innerHeight (viewport_of 350 450) - y (position scenario_resizing) < minHeight default_options
   \<and> size' (fst (onPointerMove Hook default_options (pointer_at 520 650)
        (Some (viewport_of 350 450)) scenario_resizing)) = \<lparr>width = 250, height = 350\<rparr>"
proof -
  have h: "mode scenario_resizing = Resizing"
    by (simp add: mode_def scenario_defs)
  have a: "width (size' (fst (onPointerMove Hook default_options (pointer_at 520 650)
        (Some (viewport_of 1280 800)) scenario_resizing))) = 420"
     "height (size' (fst (onPointerMove Hook default_options (pointer_at 520 650)
        (Some (viewport_of 1280 800)) scenario_resizing))) = 550"
    using resize_move_floor_then_cap [OF h, of Hook default_options "pointer_at 520 650" "viewport_of 1280 800"]
    by (simp_all add: Let_def scenario_defs)
  have b: "width (size' (fst (onPointerMove Hook default_options (pointer_at 520 650)
        (Some (viewport_of 350 450)) scenario_resizing))) = 250"
     "height (size' (fst (onPointerMove Hook default_options (pointer_at 520 650)
        (Some (viewport_of 350 450)) scenario_resizing))) = 350"
    using resize_move_floor_then_cap [OF h, of Hook default_options "pointer_at 520 650" "viewport_of 350 450"]
    by (simp_all add: Let_def scenario_defs)
  show ?thesis using h a b
    by (simp add: scenario_defs dims.equality)
qed


section \<open>Invariants along runs\<close>

lemma toggleMaximize_mode: "mode (fst (toggleMaximize i win s)) = mode s"
  by (simp add: operation_hook handleMaximize_def mode_def split: option.splits)

lemma step_keeps_maximized_idle:
  assumes "isMaximized s \<longrightarrow> mode s = Idle"
    and "if maximizing ev s then mode s = Idle else True"
  shows "isMaximized (fst (step i opts ev s)) \<longrightarrow> mode (fst (step i opts ev s)) = Idle"
proof (cases ev)
  case (ToggleMaximize win)
  with assms show ?thesis
    by (cases win) (auto simp: operation_hook handleMaximize_def mode_def split: if_splits)
next
  case (PointerMove e win)
  with assms show ?thesis
    by (cases win) (auto simp: operation_hook handleMouseMove_def mode_def Let_def split: if_splits)
next
  case (BeginDrag e rect)
  with assms show ?thesis
    by (auto simp: operation_hook handleHeaderMouseDown_def mode_def split: option.splits if_splits)
next
  case (BeginResize e)
  with assms show ?thesis
    by (auto simp: operation_hook handleResizeMouseDown_def mode_def split: if_splits)
next
  case EndInteraction
  with assms show ?thesis
    by (auto simp: operation_hook handleMouseUp_def mode_def split: if_splits)
qed

lemma run_keeps_maximized_idle:
  "isMaximized s \<longrightarrow> mode s = Idle \<Longrightarrow> maximize_only_idle i opts evs s \<Longrightarrow>
   isMaximized (fst (run i opts evs s)) \<longrightarrow> mode (fst (run i opts evs s)) = Idle"
proof (induction evs arbitrary: s)
  case Nil
  then show ?case by simp
next
  case (Cons ev evs)
  from Cons.prems have guard: "if maximizing ev s then mode s = Idle else True"
    and rest: "maximize_only_idle i opts evs (fst (step i opts ev s))"
    by simp_all
  have "isMaximized (fst (step i opts ev s)) \<longrightarrow> mode (fst (step i opts ev s)) = Idle"
    using step_keeps_maximized_idle [OF Cons.prems(1) guard] .
  from Cons.IH [OF this rest] show ?case
    by (simp add: split_beta Let_def)
qed

lemma step_keeps_prevSize_ok:
  assumes "size_ok opts (size' s)" and "size_ok opts (prevSize s)"
  shows "size_ok opts (prevSize (fst (step i opts ev s)))"
proof (cases ev)
  case (PointerMove e win)
  with assms show ?thesis
    by (cases win) (auto simp: operation_hook handleMouseMove_def Let_def)
next
  case (ToggleMaximize win)
  with assms show ?thesis
    by (cases win) (auto simp: operation_hook handleMaximize_def)
next
  case (BeginDrag e rect)
  with assms show ?thesis
    by (auto simp: operation_hook handleHeaderMouseDown_def split: option.splits)
next
  case (BeginResize e)
  with assms show ?thesis
    by (auto simp: operation_hook handleResizeMouseDown_def)
next
  case EndInteraction
  with assms show ?thesis
    by (auto simp: operation_hook handleMouseUp_def)
qed

lemma step_size_ok_iff_roomy:
  assumes "size_ok opts (size' s)" and "size_ok opts (prevSize s)"
  shows "size_ok opts (size' (fst (step i opts ev s))) \<longleftrightarrow> viewport_roomy opts ev s"
proof (cases ev)
  case (PointerMove e win)
  with assms show ?thesis
    by (cases win) (auto simp: operation_hook handleMouseMove_def size_ok_def mode_def Let_def)
next
  case (ToggleMaximize win)
  with assms show ?thesis
    by (cases win) (auto simp: operation_hook handleMaximize_def size_ok_def)
next
  case (BeginDrag e rect)
  with assms show ?thesis
    by (auto simp: operation_hook handleHeaderMouseDown_def split: option.splits)
next
  case (BeginResize e)
  with assms show ?thesis
    by (auto simp: operation_hook handleResizeMouseDown_def)
next
  case EndInteraction
  with assms show ?thesis
    by (auto simp: operation_hook handleMouseUp_def)
qed

lemma run_keeps_size_ok:
  "size_ok opts (size' s) \<Longrightarrow> size_ok opts (prevSize s) \<Longrightarrow> roomy_run i opts evs s \<Longrightarrow>
   size_ok opts (size' (fst (run i opts evs s))) \<and> size_ok opts (prevSize (fst (run i opts evs s)))"
proof (induction evs arbitrary: s)
  case Nil
  then show ?case by simp
next
  case (Cons ev evs)
  from Cons.prems have roomy: "viewport_roomy opts ev s"
    and rest: "roomy_run i opts evs (fst (step i opts ev s))"
    by simp_all
  from roomy step_size_ok_iff_roomy [OF Cons.prems(1) Cons.prems(2), of i ev]
  have 1: "size_ok opts (size' (fst (step i opts ev s)))"
    by simp
  have 2: "size_ok opts (prevSize (fst (step i opts ev s)))"
    using step_keeps_prevSize_ok [OF Cons.prems(1) Cons.prems(2)] .
  from Cons.IH [OF 1 2 rest] show ?case
    by (simp add: split_beta Let_def)
qed


section \<open>Entering a mode\<close>

text \<open>
  Claim C3 as stated fails. Neither press handler tests the other mode's flag: on the dragging
  state of Scenario A a press on the resize handle writes \<open>resizeStart\<close> and sets
  \<open>isResizing\<close>, and on the resizing state of Scenario B a header press writes \<open>dragStart\<close>
  and sets \<open>isDragging\<close>; neither returns the state unchanged.
\<close>

theorem mode_exclusivity_counterexample:
  "mode scenario_dragging = Dragging
   \<and> fst (beginResize Hook (pointer_at 500 700) scenario_dragging) \<noteq> scenario_dragging
   \<and> mode scenario_resizing = Resizing
   \<and> fst (beginDrag Hook default_options (pointer_at 150 150) (Some (rect_at 100 100))
        scenario_resizing) \<noteq> scenario_resizing"
  by (simp add: handler_defs mode_def scenario_defs)

text \<open>
  Claim C3, amended. Neither press handler tests the interaction mode. \<open>beginResize\<close> returns
  the state unchanged and runs no callback when the window is maximized; otherwise, in every
  mode, it writes \<open>resizeStart\<close> (the pointer position and the current size) and sets
  \<open>isResizing\<close>, leaving every other field as it was, so from mode \<open>Dragging\<close> the mode stays
  \<open>Dragging\<close>. \<open>beginDrag\<close> returns the state unchanged and runs no callback when the window is
  maximized or its rectangle is not available; otherwise, in every mode, it writes \<open>dragStart\<close>
  (the pointer position minus the window origin), sets \<open>isDragging\<close> and makes the call
  \<open>onDragStart?.()\<close>, leaving every other field as it was, so from mode \<open>Resizing\<close> the mode
  becomes \<open>Dragging\<close>.
\<close>

theorem press_handlers_ignore_mode:
  "beginResize i e s =
     (if isMaximized s then (s, [])
      else (s\<lparr>resizeStart := \<lparr>rx = clientX e, ry = clientY e,
                                rwidth = width (size' s), rheight = height (size' s)\<rparr>,
               isResizing := True\<rparr>, []))
   \<and> beginDrag i opts e None s = (s, [])
   \<and> beginDrag i opts e (Some r) s =
     (if isMaximized s then (s, [])
      else (s\<lparr>dragStart := \<lparr>x = clientX e - rect_left r, y = clientY e - rect_top r\<rparr>,
               isDragging := True\<rparr>,
            if onDragStart opts then [OnDragStart] else []))
   \<and> (\<not> isMaximized s \<and> mode s = Dragging \<longrightarrow>
        isResizing (fst (beginResize i e s)) \<and> mode (fst (beginResize i e s)) = Dragging)
   \<and> (\<not> isMaximized s \<and> mode s = Resizing \<longrightarrow>
        mode (fst (beginDrag i opts e (Some r) s)) = Dragging)"
  by (simp add: operation_hook handler_defs mode_def call_optional_def)

theorem press_handlers_ignore_mode_witness:
  "isMaximized scenario_maximized
   \<and> beginDrag Hook default_options (pointer_at 150 150) (Some (rect_at 0 0)) scenario_maximized
       = (scenario_maximized, [])
   \<and> beginResize Hook (pointer_at 500 700) scenario_maximized = (scenario_maximized, [])
   \<and> \<not> isMaximized scenario_dragging \<and> mode scenario_dragging = Dragging
   \<and> isResizing (fst (beginResize Hook (pointer_at 500 700) scenario_dragging))
   \<and> mode (fst (beginResize Hook (pointer_at 500 700) scenario_dragging)) = Dragging
   \<and> \<not> isMaximized scenario_resizing \<and> mode scenario_resizing = Resizing
   \<and> beginDrag Hook default_options (pointer_at 150 150) None scenario_resizing
       = (scenario_resizing, [])
   \<and> mode (fst (beginDrag Hook default_options (pointer_at 150 150) (Some (rect_at 100 100))
        scenario_resizing)) = Dragging"
proof -
  have m: "isMaximized scenario_maximized"
    and d: "\<not> isMaximized scenario_dragging \<and> mode scenario_dragging = Dragging"
    and r: "\<not> isMaximized scenario_resizing \<and> mode scenario_resizing = Resizing"
    by (simp_all add: mode_def scenario_defs)
  note t = press_handlers_ignore_mode
  from t [where i = Hook and e = "pointer_at 150 150" and s = scenario_maximized
      and opts = default_options and r = "rect_at 0 0"]
  have 1: "beginDrag Hook default_options (pointer_at 150 150) (Some (rect_at 0 0))
             scenario_maximized = (if isMaximized scenario_maximized then (scenario_maximized, [])
               else (scenario_maximized
                 \<lparr>dragStart := \<lparr>x = clientX (pointer_at 150 150) - rect_left (rect_at 0 0),
                                 y = clientY (pointer_at 150 150) - rect_top (rect_at 0 0)\<rparr>,
                  isDragging := True\<rparr>,
                 if onDragStart default_options then [OnDragStart] else []))"
    by blast
  from t [where i = Hook and e = "pointer_at 500 700" and s = scenario_maximized]
  have 2: "beginResize Hook (pointer_at 500 700) scenario_maximized =
      (if isMaximized scenario_maximized then (scenario_maximized, [])
       else (scenario_maximized
         \<lparr>resizeStart := \<lparr>rx = clientX (pointer_at 500 700), ry = clientY (pointer_at 500 700),
             rwidth = width (size' scenario_maximized),
             rheight = height (size' scenario_maximized)\<rparr>,
          isResizing := True\<rparr>, []))"
    by blast
  from d t [where i = Hook and e = "pointer_at 500 700" and s = scenario_dragging]
  have 3: "isResizing (fst (beginResize Hook (pointer_at 500 700) scenario_dragging))
     \<and> mode (fst (beginResize Hook (pointer_at 500 700) scenario_dragging)) = Dragging"
    by blast
  from t [where i = Hook and e = "pointer_at 150 150" and s = scenario_resizing
      and opts = default_options]
  have 4: "beginDrag Hook default_options (pointer_at 150 150) None scenario_resizing
       = (scenario_resizing, [])"
    by blast
  from r t [where i = Hook and e = "pointer_at 150 150" and s = scenario_resizing
      and opts = default_options and r = "rect_at 100 100"]
  have 5: "mode (fst (beginDrag Hook default_options (pointer_at 150 150) (Some (rect_at 100 100))
        scenario_resizing)) = Dragging"
    by blast
  from m 1 have a1: "beginDrag Hook default_options (pointer_at 150 150) (Some (rect_at 0 0))
             scenario_maximized = (scenario_maximized, [])"
    by (simp only: if_True)
  from m 2 have a2: "beginResize Hook (pointer_at 500 700) scenario_maximized
      = (scenario_maximized, [])"
    by (simp only: if_True)
  from m d r a1 a2 3 4 5 show ?thesis by blast
qed

text \<open>
  Claim C8. Out-of-mode calls leave the whole state unchanged and run no callback: a pointer
  move in a state whose mode is \<open>Idle\<close>, and \<open>beginDrag\<close> and \<open>beginResize\<close> in a maximized
  state.
\<close>

theorem out_of_mode_noop:
  "(mode s = Idle \<longrightarrow> onPointerMove i opts e win s = (s, []))
   \<and> (isMaximized s \<longrightarrow>
        beginDrag i opts e rect s = (s, []) \<and> beginResize i e s = (s, []))"
  by (simp add: operation_hook handler_defs mode_def split: option.splits)

theorem out_of_mode_noop_witness:
  "mode (initial_state default_options) = Idle
   \<and> onPointerMove Hook default_options (pointer_at 900 750) (Some (viewport_of 1280 800))
       (initial_state default_options) = (initial_state default_options, [])
   \<and> isMaximized scenario_maximized
   \<and> beginDrag Hook (default_options\<lparr>onDragStart := True\<rparr>) (pointer_at 150 150)
       (Some (rect_at 0 0)) scenario_maximized = (scenario_maximized, [])
   \<and> beginResize Hook (pointer_at 500 700) scenario_maximized = (scenario_maximized, [])"
proof -
  have n: "mode (initial_state default_options) = Idle"
    and m: "isMaximized scenario_maximized"
    by (simp_all add: mode_def scenario_defs)
  from n m
    out_of_mode_noop [of "initial_state default_options" Hook default_options
      "pointer_at 900 750" "Some (viewport_of 1280 800)"]
    out_of_mode_noop [of scenario_maximized Hook "default_options\<lparr>onDragStart := True\<rparr>"
      "pointer_at 150 150" _ "Some (rect_at 0 0)"]
    out_of_mode_noop [of scenario_maximized Hook _ "pointer_at 500 700"]
  show ?thesis by blast
qed


section \<open>Releasing the pointer\<close>

text \<open>
  Claim C7. \<open>endInteraction\<close> is idempotent: a second consecutive call returns the state of
  the first and runs no callback. The first call clears both flags, so the mode is \<open>Idle\<close>
  afterwards; from \<open>Dragging\<close> it makes the one call \<open>onDragEnd?.()\<close>, which runs the callback
  once when it was supplied; from \<open>Resizing\<close> it runs no callback; from \<open>Idle\<close> it changes
  nothing and runs no callback.
\<close>

theorem endInteraction_idempotent:
  "(let (s1, fired1) = endInteraction i opts s;
        (s2, fired2) = endInteraction i opts s1
    in s2 = s1 \<and> fired2 = []
     \<and> mode s1 = Idle
     \<and> s1 = s\<lparr>isDragging := False, isResizing := False\<rparr>
     \<and> (mode s = Dragging \<longrightarrow> fired1 = (if onDragEnd opts then [OnDragEnd] else []))
     \<and> (mode s = Resizing \<longrightarrow> fired1 = [])
     \<and> (mode s = Idle \<longrightarrow> s1 = s \<and> fired1 = []))"
  by (simp add: operation_hook handleMouseUp_def mode_def call_optional_def)

theorem endInteraction_idempotent_witness:
  "mode scenario_dragging = Dragging
   \<and> endInteraction Hook (default_options\<lparr>onDragEnd := True\<rparr>) scenario_dragging
       = (initial_state default_options\<lparr>dragStart := \<lparr>x = 50, y = 50\<rparr>\<rparr>, [OnDragEnd])
   \<and> endInteraction Hook (default_options\<lparr>onDragEnd := True\<rparr>)
        (initial_state default_options\<lparr>dragStart := \<lparr>x = 50, y = 50\<rparr>\<rparr>)
       = (initial_state default_options\<lparr>dragStart := \<lparr>x = 50, y = 50\<rparr>\<rparr>, [])
   \<and> mode scenario_resizing = Resizing
   \<and> snd (endInteraction Hook (default_options\<lparr>onDragEnd := True\<rparr>) scenario_resizing) = []
   \<and> mode (fst (endInteraction Hook (default_options\<lparr>onDragEnd := True\<rparr>) scenario_resizing)) = Idle
   \<and> mode (initial_state default_options) = Idle
   \<and> endInteraction Hook (default_options\<lparr>onDragEnd := True\<rparr>) (initial_state default_options)
       = (initial_state default_options, [])"
proof -
  let ?opts = "default_options\<lparr>onDragEnd := True\<rparr>"
  have d: "mode scenario_dragging = Dragging"
    and r: "mode scenario_resizing = Resizing"
    and n: "mode (initial_state default_options) = Idle"
    by (simp_all add: mode_def scenario_defs)
  have sup: "onDragEnd ?opts" by simp
  from endInteraction_idempotent [of Hook ?opts scenario_dragging] d sup
  have 1: "endInteraction Hook ?opts scenario_dragging
       = (initial_state default_options\<lparr>dragStart := \<lparr>x = 50, y = 50\<rparr>\<rparr>, [OnDragEnd])"
    "endInteraction Hook ?opts (initial_state default_options\<lparr>dragStart := \<lparr>x = 50, y = 50\<rparr>\<rparr>)
       = (initial_state default_options\<lparr>dragStart := \<lparr>x = 50, y = 50\<rparr>\<rparr>, [])"
    by (auto simp: split_beta Let_def scenario_defs prod_eq_iff simp del: endInteraction.simps)
  from endInteraction_idempotent [of Hook ?opts scenario_resizing] r
  have 2: "snd (endInteraction Hook ?opts scenario_resizing) = []"
    "mode (fst (endInteraction Hook ?opts scenario_resizing)) = Idle"
    by (auto simp: split_beta Let_def simp del: endInteraction.simps)
  from endInteraction_idempotent [of Hook ?opts "initial_state default_options"] n
  have 3: "endInteraction Hook ?opts (initial_state default_options)
       = (initial_state default_options, [])"
    by (auto simp: split_beta Let_def prod_eq_iff simp del: endInteraction.simps)
  from d r n 1 2 3 show ?thesis by blast
qed


section \<open>Maximize and restore\<close>

text \<open>
  Claim C4. From a non-maximized state, \<open>toggleMaximize\<close> maximizes and a second
  \<open>toggleMaximize\<close> restores position and size exactly to their values before the first, with
  \<open>isMaximized\<close> false again. The viewport of the second call is arbitrary: the restore applies
  no clamping, whatever the viewport has become. Of the whole state only the saved geometry
  differs from the state before.
\<close>

theorem maximize_round_trip:
  "\<not> isMaximized s \<Longrightarrow>
   (let s1 = fst (toggleMaximize i (Some w1) s);
        s2 = fst (toggleMaximize i (Some w2) s1)
    in isMaximized s1
     \<and> position s2 = position s \<and> size' s2 = size' s \<and> \<not> isMaximized s2
     \<and> s2 = s\<lparr>prevPosition := position s, prevSize := size' s\<rparr>)"
  by (simp add: operation_hook handleMaximize_def Let_def)

theorem maximize_round_trip_witness:
  "\<not> isMaximized (initial_state default_options)
   \<and> fst (toggleMaximize Hook (Some (viewport_of 1280 800)) (initial_state default_options))
       = scenario_maximized
   \<and> position (fst (toggleMaximize Hook (Some (viewport_of 640 480)) scenario_maximized))
       = \<lparr>x = 100, y = 100\<rparr>
   \<and> size' (fst (toggleMaximize Hook (Some (viewport_of 640 480)) scenario_maximized))
       = \<lparr>width = 400, height = 600\<rparr>
   \<and> \<not> isMaximized (fst (toggleMaximize Hook (Some (viewport_of 640 480)) scenario_maximized))"
proof -
  have h: "\<not> isMaximized (initial_state default_options)"
    by (simp add: scenario_defs)
  have e: "fst (toggleMaximize Hook (Some (viewport_of 1280 800)) (initial_state default_options))
       = scenario_maximized"
    by (simp add: handleMaximize_def scenario_defs)
  from maximize_round_trip [OF h, of Hook "viewport_of 1280 800" "viewport_of 640 480"]
  show ?thesis using h e
    by (simp add: Let_def) (simp add: scenario_defs)
qed

text \<open>
  Claim C9. \<open>prevPosition\<close> and \<open>prevSize\<close> are written only when \<open>toggleMaximize\<close>
  maximizes a non-maximized window, where they receive the current position and size.
  \<open>beginDrag\<close>, \<open>beginResize\<close>, \<open>onPointerMove\<close>, \<open>endInteraction\<close> and \<open>toggleMaximize\<close> on
  a maximized window leave both unchanged.
\<close>

theorem saved_geometry_frame:
  "prevPosition (fst (beginDrag i opts e rect s)) = prevPosition s
   \<and> prevSize (fst (beginDrag i opts e rect s)) = prevSize s
   \<and> prevPosition (fst (beginResize i e s)) = prevPosition s
   \<and> prevSize (fst (beginResize i e s)) = prevSize s
   \<and> prevPosition (fst (onPointerMove i opts e win s)) = prevPosition s
   \<and> prevSize (fst (onPointerMove i opts e win s)) = prevSize s
   \<and> prevPosition (fst (endInteraction i opts s)) = prevPosition s
   \<and> prevSize (fst (endInteraction i opts s)) = prevSize s
   \<and> (isMaximized s \<longrightarrow>
        prevPosition (fst (toggleMaximize i win s)) = prevPosition s
        \<and> prevSize (fst (toggleMaximize i win s)) = prevSize s)
   \<and> (\<not> isMaximized s \<longrightarrow>
        prevPosition (fst (toggleMaximize i (Some w) s)) = position s
        \<and> prevSize (fst (toggleMaximize i (Some w) s)) = size' s)"
  by (simp add: operation_hook handler_defs Let_def split_beta split: option.splits)

theorem saved_geometry_frame_witness:
  "isMaximized scenario_maximized
   \<and> prevSize (fst (toggleMaximize Hook (Some (viewport_of 640 480)) scenario_maximized))
       = \<lparr>width = 400, height = 600\<rparr>
   \<and> \<not> isMaximized scenario_dragging
   \<and> prevPosition (fst (toggleMaximize Hook (Some (viewport_of 640 480))
        (scenario_dragging\<lparr>position := \<lparr>x = 850, y = 200\<rparr>\<rparr>))) = \<lparr>x = 850, y = 200\<rparr>"
proof -
  have m: "isMaximized scenario_maximized"
    and d: "\<not> isMaximized (scenario_dragging\<lparr>position := \<lparr>x = 850, y = 200\<rparr>\<rparr>)"
    and d': "\<not> isMaximized scenario_dragging"
    by (simp_all add: scenario_defs)
  from m saved_geometry_frame [of Hook _ _ _ scenario_maximized "Some (viewport_of 640 480)"]
  have 1: "prevSize (fst (toggleMaximize Hook (Some (viewport_of 640 480)) scenario_maximized))
       = prevSize scenario_maximized"
    by blast
  from d saved_geometry_frame [of Hook _ _ _ "scenario_dragging\<lparr>position := \<lparr>x = 850, y = 200\<rparr>\<rparr>"
      _ "viewport_of 640 480"]
  have 2: "prevPosition (fst (toggleMaximize Hook (Some (viewport_of 640 480))
        (scenario_dragging\<lparr>position := \<lparr>x = 850, y = 200\<rparr>\<rparr>)))
      = position (scenario_dragging\<lparr>position := \<lparr>x = 850, y = 200\<rparr>\<rparr>)"
    by blast
  have 3: "prevSize scenario_maximized = \<lparr>width = 400, height = 600\<rparr>"
    by (simp add: scenario_defs)
  from m d' 1 2 3 show ?thesis by simp
qed

text \<open>
  Claim C5 as stated fails. \<open>handleMaximize\<close> writes neither \<open>isDragging\<close> nor
  \<open>isResizing\<close>: the maximize button used during a drag gives a reachable state that is
  maximized and still dragging.
\<close>

theorem maximized_implies_idle_counterexample:
  "isMaximized (fst (run Hook default_options
       [BeginDrag (pointer_at 150 150) (Some (rect_at 100 100)),
        ToggleMaximize (Some (viewport_of 1280 800))]
       (initial_state default_options)))
   \<and> mode (fst (run Hook default_options
       [BeginDrag (pointer_at 150 150) (Some (rect_at 100 100)),
        ToggleMaximize (Some (viewport_of 1280 800))]
       (initial_state default_options))) \<noteq> Idle"
  by (simp add: handler_defs mode_def scenario_defs call_optional_def)

text \<open>
  Claim C5, amended. \<open>toggleMaximize\<close> leaves the mode as it was. Used with a viewport on a
  window that is not maximized it gives a maximized state, so used there while the mode is
  \<open>Dragging\<close> or \<open>Resizing\<close> it gives a maximized state that is still \<open>Dragging\<close> or
  \<open>Resizing\<close>; used on a maximized window it gives a restored state in the same mode. In every
  state reached from the initial state by a run that maximizes the window only while the mode
  is \<open>Idle\<close>, a maximized window is in mode \<open>Idle\<close>.
\<close>

theorem maximize_keeps_mode:
  "mode (fst (toggleMaximize i win s)) = mode s
   \<and> (\<not> isMaximized s \<longrightarrow> isMaximized (fst (toggleMaximize i (Some w) s)))
   \<and> (\<not> isMaximized s \<and> mode s = Dragging \<longrightarrow>
        isMaximized (fst (toggleMaximize i (Some w) s))
        \<and> mode (fst (toggleMaximize i (Some w) s)) = Dragging)
   \<and> (\<not> isMaximized s \<and> mode s = Resizing \<longrightarrow>
        isMaximized (fst (toggleMaximize i (Some w) s))
        \<and> mode (fst (toggleMaximize i (Some w) s)) = Resizing)
   \<and> (isMaximized s \<longrightarrow> \<not> isMaximized (fst (toggleMaximize i (Some w) s)))
   \<and> (maximize_only_idle i opts evs (initial_state opts) \<longrightarrow>
        (let s1 = fst (run i opts evs (initial_state opts))
         in isMaximized s1 \<longrightarrow> mode s1 = Idle))"
proof -
  have init: "isMaximized (initial_state opts) \<longrightarrow> mode (initial_state opts) = Idle"
    by (simp add: initial_state_def)
  have flag: "isMaximized (fst (toggleMaximize i (Some w) s)) = (\<not> isMaximized s)"
    by (simp add: operation_hook handleMaximize_def)
  have keep: "mode (fst (toggleMaximize i win' s)) = mode s" for win'
    by (rule toggleMaximize_mode)
  from run_keeps_maximized_idle [OF init] flag keep show ?thesis
    by (simp add: Let_def)
qed

theorem maximize_keeps_mode_witness:
  "\<not> isMaximized scenario_dragging \<and> mode scenario_dragging = Dragging
   \<and> isMaximized (fst (toggleMaximize Hook (Some (viewport_of 1280 800)) scenario_dragging))
   \<and> mode (fst (toggleMaximize Hook (Some (viewport_of 1280 800)) scenario_dragging)) = Dragging
   \<and> \<not> isMaximized scenario_resizing \<and> mode scenario_resizing = Resizing
   \<and> isMaximized (fst (toggleMaximize Hook (Some (viewport_of 1280 800)) scenario_resizing))
   \<and> mode (fst (toggleMaximize Hook (Some (viewport_of 1280 800)) scenario_resizing)) = Resizing
   \<and> isMaximized scenario_maximized
   \<and> \<not> isMaximized (fst (toggleMaximize Hook (Some (viewport_of 1280 800)) scenario_maximized))
   \<and> maximize_only_idle Hook default_options
       [BeginDrag (pointer_at 150 150) (Some (rect_at 100 100)), EndInteraction,
        ToggleMaximize (Some (viewport_of 1280 800))]
       (initial_state default_options)
   \<and> isMaximized (fst (run Hook default_options
       [BeginDrag (pointer_at 150 150) (Some (rect_at 100 100)), EndInteraction,
        ToggleMaximize (Some (viewport_of 1280 800))]
       (initial_state default_options)))
   \<and> mode (fst (run Hook default_options
       [BeginDrag (pointer_at 150 150) (Some (rect_at 100 100)), EndInteraction,
        ToggleMaximize (Some (viewport_of 1280 800))]
       (initial_state default_options))) = Idle"
proof -
  let ?evs = "[BeginDrag (pointer_at 150 150) (Some (rect_at 100 100)), EndInteraction,
        ToggleMaximize (Some (viewport_of 1280 800))]"
  let ?w = "viewport_of 1280 800"
  have d: "\<not> isMaximized scenario_dragging \<and> mode scenario_dragging = Dragging"
    and r: "\<not> isMaximized scenario_resizing \<and> mode scenario_resizing = Resizing"
    and x: "isMaximized scenario_maximized"
    by (simp_all add: mode_def scenario_defs)
  have g: "maximize_only_idle Hook default_options ?evs (initial_state default_options)"
    by (simp add: handler_defs mode_def scenario_defs call_optional_def)
  have m: "isMaximized (fst (run Hook default_options ?evs (initial_state default_options)))"
    by (simp add: handler_defs scenario_defs call_optional_def)
  note t = maximize_keeps_mode
  from d t [where i = Hook and s = scenario_dragging and w = ?w]
  have 1: "isMaximized (fst (toggleMaximize Hook (Some ?w) scenario_dragging))
     \<and> mode (fst (toggleMaximize Hook (Some ?w) scenario_dragging)) = Dragging"
    by blast
  from r t [where i = Hook and s = scenario_resizing and w = ?w]
  have 2: "isMaximized (fst (toggleMaximize Hook (Some ?w) scenario_resizing))
     \<and> mode (fst (toggleMaximize Hook (Some ?w) scenario_resizing)) = Resizing"
    by blast
  from x t [where i = Hook and s = scenario_maximized and w = ?w]
  have 3: "\<not> isMaximized (fst (toggleMaximize Hook (Some ?w) scenario_maximized))"
    by blast
  from t [where i = Hook and opts = default_options and evs = ?evs] g m
  have 4: "mode (fst (run Hook default_options ?evs (initial_state default_options))) = Idle"
    unfolding Let_def by blast
  from d r x g m 1 2 3 4 show ?thesis by blast
qed

text \<open>
  Claim C6 as stated fails. Maximizing in a viewport of \<open>(200,200)\<close> sets the size to
  \<open>(200,200)\<close>, and a resize move in a viewport of \<open>(350,450)\<close> with the window at
  \<open>(100,100)\<close> caps the size at \<open>(250,350)\<close>; both are below the minimums \<open>(300,400)\<close> although
  the size before was not.
\<close>

theorem size_lower_bound_counterexample:
  "size_ok default_options (size' (initial_state default_options))
   \<and> \<not> size_ok default_options (size' (fst (toggleMaximize Hook (Some (viewport_of 200 200))
          (initial_state default_options))))
   \<and> size_ok default_options (size' scenario_resizing)
   \<and> \<not> size_ok default_options (size' (fst (onPointerMove Hook default_options
          (pointer_at 520 650) (Some (viewport_of 350 450)) scenario_resizing)))"
  by (simp add: handler_defs size_ok_def scenario_defs)

text \<open>
  Claim C6, amended. When the initial size respects the minimums, the size respects them in
  every state reached by a run whose viewports leave room where a size is computed from them:
  at each pointer move that meets mode \<open>Resizing\<close>,
  \<open>viewport.width - position.x \<ge> minWidth\<close> and \<open>viewport.height - position.y \<ge> minHeight\<close>, and
  at each \<open>toggleMaximize\<close> that meets a window not maximized, the viewport is at least
  \<open>minWidth\<close> by \<open>minHeight\<close>. The condition is exact: from a state whose size and saved size
  respect the minimums, an event gives a size that respects them if and only if its viewport
  leaves that room. Where it does not, the viewport wins: \<open>toggleMaximize\<close> on a window not
  maximized sets the size to the viewport, and a resize move sets the width to
  \<open>viewport.width - position.x\<close> when that is below \<open>minWidth\<close>, the height to
  \<open>viewport.height - position.y\<close> when that is below \<open>minHeight\<close>.
\<close>

theorem size_lower_bound_roomy:
  "(size_ok opts (initialSize opts) \<and> roomy_run i opts evs (initial_state opts) \<longrightarrow>
      size_ok opts (size' (fst (run i opts evs (initial_state opts)))))
   \<and> (size_ok opts (size' s) \<and> size_ok opts (prevSize s) \<longrightarrow>
        (size_ok opts (size' (fst (step i opts ev s))) \<longleftrightarrow> viewport_roomy opts ev s))
   \<and> (\<not> isMaximized s \<longrightarrow>
        size' (fst (toggleMaximize i (Some w) s))
          = \<lparr>width = innerWidth w, height = innerHeight w\<rparr>)
   \<and> (mode s = Resizing \<and> innerWidth w - x (position s) < minWidth opts \<longrightarrow>
        width (size' (fst (onPointerMove i opts e (Some w) s))) = innerWidth w - x (position s))
   \<and> (mode s = Resizing \<and> innerHeight w - y (position s) < minHeight opts \<longrightarrow>
        height (size' (fst (onPointerMove i opts e (Some w) s))) = innerHeight w - y (position s))"
proof -
  have run_ok: "size_ok opts (size' (fst (run i opts evs (initial_state opts))))"
    if ok: "size_ok opts (initialSize opts)"
      and roomy: "roomy_run i opts evs (initial_state opts)"
  proof -
    from ok have "size_ok opts (size' (initial_state opts))"
      and "size_ok opts (prevSize (initial_state opts))"
      by (simp_all add: initial_state_def)
    from run_keeps_size_ok [OF this roomy] show ?thesis by simp
  qed
  have maxi: "\<not> isMaximized s \<Longrightarrow>
      size' (fst (toggleMaximize i (Some w) s)) = \<lparr>width = innerWidth w, height = innerHeight w\<rparr>"
    by (simp add: operation_hook handleMaximize_def)
  have capw: "mode s = Resizing \<Longrightarrow> innerWidth w - x (position s) < minWidth opts \<Longrightarrow>
      width (size' (fst (onPointerMove i opts e (Some w) s))) = innerWidth w - x (position s)"
    by (auto simp: operation_hook handleMouseMove_def mode_def Let_def split: if_splits)
  have caph: "mode s = Resizing \<Longrightarrow> innerHeight w - y (position s) < minHeight opts \<Longrightarrow>
      height (size' (fst (onPointerMove i opts e (Some w) s))) = innerHeight w - y (position s)"
    by (auto simp: operation_hook handleMouseMove_def mode_def Let_def split: if_splits)
  from run_ok step_size_ok_iff_roomy [of opts s i ev] maxi capw caph show ?thesis
    by blast
qed

theorem size_lower_bound_roomy_witness:
  "size_ok default_options (initialSize default_options)
   \<and> roomy_run Hook default_options
       [BeginDrag (pointer_at 150 150) (Some (rect_at 100 100)),
        PointerMove (pointer_at 900 750) (Some (viewport_of 350 450)),
        EndInteraction,
        BeginResize (pointer_at 400 600),
        PointerMove (pointer_at 200 200) (Some (viewport_of 1280 800)),
        EndInteraction,
        ToggleMaximize (Some (viewport_of 1280 800)),
        ToggleMaximize (Some (viewport_of 200 200))]
       (initial_state default_options)
   \<and> size_ok default_options (size' (fst (run Hook default_options
       [BeginDrag (pointer_at 150 150) (Some (rect_at 100 100)),
        PointerMove (pointer_at 900 750) (Some (viewport_of 350 450)),
        EndInteraction,
        BeginResize (pointer_at 400 600),
        PointerMove (pointer_at 200 200) (Some (viewport_of 1280 800)),
        EndInteraction,
        ToggleMaximize (Some (viewport_of 1280 800)),
        ToggleMaximize (Some (viewport_of 200 200))]
       (initial_state default_options))))
   \<and> size_ok default_options (size' scenario_resizing)
   \<and> size_ok default_options (prevSize scenario_resizing)
   \<and> \<not> viewport_roomy default_options
         (PointerMove (pointer_at 520 650) (Some (viewport_of 350 450))) scenario_resizing
   \<and> \<not> size_ok default_options (size' (fst (step Hook default_options
         (PointerMove (pointer_at 520 650) (Some (viewport_of 350 450))) scenario_resizing)))
   \<and> \<not> isMaximized scenario_resizing
   \<and> size' (fst (toggleMaximize Hook (Some (viewport_of 200 200)) scenario_resizing))
       = \<lparr>width = 200, height = 200\<rparr>
   \<and> mode scenario_resizing = Resizing
   \<and> innerWidth (viewport_of 350 450) - x (position scenario_resizing) < minWidth default_options
   \<and> innerHeight (viewport_of 350 450) - y (position scenario_resizing) < minHeight default_options
   \<and> width (size' (fst (onPointerMove Hook default_options (pointer_at 520 650)
        (Some (viewport_of 350 450)) scenario_resizing))) = 250
   \<and> height (size' (fst (onPointerMove Hook default_options (pointer_at 520 650)
        (Some (viewport_of 350 450)) scenario_resizing))) = 350"
proof -
  let ?evs = "[BeginDrag (pointer_at 150 150) (Some (rect_at 100 100)),
        PointerMove (pointer_at 900 750) (Some (viewport_of 350 450)),
        EndInteraction,
        BeginResize (pointer_at 400 600),
        PointerMove (pointer_at 200 200) (Some (viewport_of 1280 800)),
        EndInteraction,
        ToggleMaximize (Some (viewport_of 1280 800)),
        ToggleMaximize (Some (viewport_of 200 200))]"
  let ?mv = "PointerMove (pointer_at 520 650) (Some (viewport_of 350 450))"
  have ok: "size_ok default_options (initialSize default_options)"
    by (simp add: size_ok_def default_options_def)
  have roomy: "roomy_run Hook default_options ?evs (initial_state default_options)"
    by (simp add: handler_defs mode_def scenario_defs call_optional_def)
  have s: "size_ok default_options (size' scenario_resizing)"
    "size_ok default_options (prevSize scenario_resizing)"
    by (simp_all add: size_ok_def scenario_defs)
  have nr: "\<not> viewport_roomy default_options ?mv scenario_resizing"
    by (simp add: mode_def scenario_defs)
  have f: "\<not> isMaximized scenario_resizing" "mode scenario_resizing = Resizing"
    "innerWidth (viewport_of 350 450) - x (position scenario_resizing) < minWidth default_options"
    "innerHeight (viewport_of 350 450) - y (position scenario_resizing) < minHeight default_options"
    by (simp_all add: mode_def scenario_defs)
  note t = size_lower_bound_roomy
  from ok roomy t [where opts = default_options and i = Hook and evs = ?evs]
  have 1: "size_ok default_options
      (size' (fst (run Hook default_options ?evs (initial_state default_options))))"
    by blast
  from s nr t [where opts = default_options and i = Hook and s = scenario_resizing and ev = ?mv]
  have 2: "\<not> size_ok default_options (size' (fst (step Hook default_options ?mv scenario_resizing)))"
    by blast
  from f(1) t [where i = Hook and s = scenario_resizing and w = "viewport_of 200 200"]
  have 3: "size' (fst (toggleMaximize Hook (Some (viewport_of 200 200)) scenario_resizing))
       = \<lparr>width = innerWidth (viewport_of 200 200), height = innerHeight (viewport_of 200 200)\<rparr>"
    by blast
  from f t [where opts = default_options and i = Hook and s = scenario_resizing
      and w = "viewport_of 350 450" and e = "pointer_at 520 650"]
  have 4: "width (size' (fst (onPointerMove Hook default_options (pointer_at 520 650)
        (Some (viewport_of 350 450)) scenario_resizing)))
       = innerWidth (viewport_of 350 450) - x (position scenario_resizing)"
    "height (size' (fst (onPointerMove Hook default_options (pointer_at 520 650)
        (Some (viewport_of 350 450)) scenario_resizing)))
       = innerHeight (viewport_of 350 450) - y (position scenario_resizing)"
    by blast+
  have v: "innerWidth (viewport_of 200 200) = 200" "innerHeight (viewport_of 200 200) = 200"
    "innerWidth (viewport_of 350 450) - x (position scenario_resizing) = 250"
    "innerHeight (viewport_of 350 450) - y (position scenario_resizing) = 350"
    by (simp_all add: scenario_defs)
  from 3 v have a3: "size' (fst (toggleMaximize Hook (Some (viewport_of 200 200)) scenario_resizing))
       = \<lparr>width = 200, height = 200\<rparr>"
    by (simp only:)
  from 4 v have a4: "width (size' (fst (onPointerMove Hook default_options (pointer_at 520 650)
        (Some (viewport_of 350 450)) scenario_resizing))) = 250"
    "height (size' (fst (onPointerMove Hook default_options (pointer_at 520 650)
        (Some (viewport_of 350 450)) scenario_resizing))) = 350"
    by (simp_all only:)
  from ok roomy s nr f 1 2 a3 a4 show ?thesis by blast
qed


section \<open>Equivalence of the hook and the component\<close>

text \<open>
  Claim C10. The handlers declared inline in the component \<open>DraggableWindow\<close> and the handlers
  of the hook \<open>useDraggableWindow\<close> give the same next state and run the same callbacks, for
  every state and every input; so do single steps and whole runs of the two implementations.
\<close>

theorem implementations_equivalent:
  "DraggableWindow_handleHeaderMouseDown opts e rect s = handleHeaderMouseDown opts e rect s
   \<and> DraggableWindow_handleResizeMouseDown e s = handleResizeMouseDown e s
   \<and> DraggableWindow_handleMouseMove opts e win s = handleMouseMove opts e win s
   \<and> DraggableWindow_handleMouseUp opts s = handleMouseUp opts s
   \<and> DraggableWindow_handleMaximize win s = handleMaximize win s
   \<and> step Component opts ev s = step Hook opts ev s
   \<and> run Component opts evs s = run Hook opts evs s"
proof -
  have st: "step Component opts ev' s' = step Hook opts ev' s'" for ev' s'
    by (cases ev') (simp_all add: operation_hook)
  have "run Component opts evs s = run Hook opts evs s"
    by (induction evs arbitrary: s) (simp_all add: st)
  with st show ?thesis
    by (simp add: DraggableWindow_handleHeaderMouseDown_eq DraggableWindow_handleResizeMouseDown_eq
        DraggableWindow_handleMouseMove_eq DraggableWindow_handleMouseUp_eq
        DraggableWindow_handleMaximize_eq)
qed

end
